theory Spec2Isabelle
  imports Complex_Main
begin

section \<open>Numbers, time and enumerations\<close>

text \<open>
  The server stores amounts as JavaScript numbers and instants as \<open>Date\<close> values.
  Amounts are modelled as exact rationals and instants as integer milliseconds since the
  epoch, so \<open>(d - now) / (1000 * 60 * 60)\<close> is the exact number of hours.
  \<open>Math.round(x)\<close> rounds half up: it is \<open>\<lfloor>x + 1/2\<rfloor>\<close>.
\<close>

definition js_round :: "rat \<Rightarrow> int" where
  "js_round x = \<lfloor>x + 1 / 2\<rfloor>"

text \<open>The idiom \<open>Math.round(x * 100) / 100\<close> of the fare, cost and refund code.\<close>

definition round2 :: "rat \<Rightarrow> rat" where
  "round2 x = of_int (js_round (x * 100)) / 100"


datatype tripType = OneWay | RoundTrip

text \<open>Booking \<open>status\<close>: Pending, Confirmed, Cancelled, Completed, No-Show, Refunded.\<close>

datatype bstatus = BPending | BConfirmed | BCancelled | BCompleted | BNoShow | BRefunded

text \<open>\<open>paymentStatus\<close> of a booking or hiring.\<close>

datatype paystatus =
  PayPending | Paid | PayFailed | PayRefunded | PartiallyPaid | PartiallyRefunded

text \<open>\<open>status\<close> of one ledger entry (payment or refund).\<close>

datatype entrystatus = EPending | ECompleted | EFailed | ECancelled | ERefunded

datatype passengerType = Adult | Child | Senior

section \<open>The booking document\<close>

record payment =
  pay_amount :: rat
  pay_method :: string
  pay_transactionId :: string
  pay_reference :: string
  pay_gateway :: string
  pay_status :: entrystatus
  pay_date :: int

record refund =
  ref_amount :: rat
  ref_reason :: string
  ref_refundTransactionId :: string
  ref_status :: entrystatus
  ref_date :: int

record passenger =
  seatNumber :: string
  passengerType :: passengerType

record paymentMetadata =
  md_totalPaid :: rat
  md_totalRefunded :: rat
  md_lastPaymentDate :: "int option"
  md_lastPaymentMethod :: "string option"
  md_paymentCompletedAt :: "int option"

record statusEntry =
  se_status :: bstatus
  se_date :: int
  se_notes :: string
  se_updatedBy :: nat

record booking =
  booking_id :: nat
  bookingNumber :: string
  bookingType :: tripType
  status :: bstatus
  passengers :: "passenger list"
  route :: nat
  bus :: nat
  departureDate :: int
  returnDate :: "int option"
  selectedOutbound :: "string list"
  selectedReturn :: "string list"
  totalFare :: rat
  paymentStatus :: paystatus
  payments :: "payment list"
  refunds :: "refund list"
  paymentMetadata :: paymentMetadata
  discountApplied :: "rat option"
  statusHistory :: "statusEntry list"
  cancellationReason :: "string option"
  cancelledAt :: "int option"
  cancelledBy :: "nat option"
  refundAmount :: "rat option"

datatype error =
  DuplicateTransaction
  | InvalidAmount
  | AmountExceedsBalance
  | InvalidStatus
  | RouteNotFound
  | BusNotFound
  | RouteOrBusNotFound
  | MissingRoute
  | ValidationFailed

section \<open>Payment ledger of a booking\<close>

text \<open>
  \<open>getTotalPaid\<close> and \<open>getTotalRefunded\<close>: \<open>filter\<close> on status Completed, then
  \<open>reduce\<close> from 0.
\<close>

definition getTotalPaid :: "booking \<Rightarrow> rat" where
  "getTotalPaid b =
     foldl (\<lambda>total p. total + pay_amount p) 0
       (filter (\<lambda>p. pay_status p = ECompleted) (payments b))"

definition getTotalRefunded :: "booking \<Rightarrow> rat" where
  "getTotalRefunded b =
     foldl (\<lambda>total r. total + ref_amount r) 0
       (filter (\<lambda>r. ref_status r = ECompleted) (refunds b))"

text \<open>
  \<open>updatePaymentStatus\<close>: an if / else-if chain with no final else, so when no branch
  matches the stored \<open>paymentStatus\<close> is kept; then a Pending booking that became Paid
  is confirmed. \<open>this.totalFare || 0\<close> is \<open>totalFare\<close> on numbers.
\<close>

definition updatePaymentStatus :: "booking \<Rightarrow> booking" where
  "updatePaymentStatus b =
     (let totalPaid = getTotalPaid b;
          fare = totalFare b;
          totalRefunded = getTotalRefunded b;
          b1 = (if totalPaid \<ge> fare \<and> totalRefunded = 0 then b\<lparr>paymentStatus := Paid\<rparr>
                else if totalPaid > 0 \<and> totalPaid < fare then b\<lparr>paymentStatus := PartiallyPaid\<rparr>
                else if totalRefunded > 0 \<and> totalRefunded < totalPaid
                  then b\<lparr>paymentStatus := PartiallyRefunded\<rparr>
                else if totalRefunded \<ge> totalPaid \<and> totalPaid > 0
                  then b\<lparr>paymentStatus := PayRefunded\<rparr>
                else if totalPaid = 0 then b\<lparr>paymentStatus := PayPending\<rparr>
                else b)
      in if paymentStatus b1 = Paid \<and> status b1 = BPending
         then b1\<lparr>status := BConfirmed\<rparr> else b1)"

text \<open>
  \<open>updatePaymentMetadata\<close>: caches the totals, the date and method of the latest
  completed payment (stable sort by date, descending, first element), and the instant the
  booking first became Paid.
\<close>

definition updatePaymentMetadata :: "int \<Rightarrow> booking \<Rightarrow> booking" where
  "updatePaymentMetadata now b =
     (let m0 = paymentMetadata b;
          m1 = m0\<lparr>md_totalPaid := getTotalPaid b, md_totalRefunded := getTotalRefunded b\<rparr>;
          m2 = (case sort_key (\<lambda>p. - pay_date p)
                       (filter (\<lambda>p. pay_status p = ECompleted) (payments b)) of
                  [] \<Rightarrow> m1
                | lastPayment # _ \<Rightarrow>
                    m1\<lparr>md_lastPaymentDate := Some (pay_date lastPayment),
                       md_lastPaymentMethod := Some (pay_method lastPayment)\<rparr>);
          m3 = (if paymentStatus b = Paid \<and> md_paymentCompletedAt m2 = None
                then m2\<lparr>md_paymentCompletedAt := Some now\<rparr> else m2)
      in b\<lparr>paymentMetadata := m3\<rparr>)"

record paymentData =
  pd_amount :: rat
  pd_transactionId :: string
  pd_reference :: string
  pd_method :: string
  pd_gateway :: string

text \<open>
  \<open>addPayment\<close>: throws before any mutation when an entry of the ledger has the same
  transaction id; otherwise pushes a Completed entry and recomputes status and metadata.
  The result is the document after the call and the outcome.
\<close>

definition addPayment :: "int \<Rightarrow> booking \<Rightarrow> paymentData \<Rightarrow> booking \<times> (error + payment)" where
  "addPayment now b pd =
     (case find (\<lambda>p. pay_transactionId p = pd_transactionId pd) (payments b) of
        Some existingPayment \<Rightarrow> (b, Inl DuplicateTransaction)
      | None \<Rightarrow>
          (let pay = \<lparr>pay_amount = pd_amount pd, pay_method = pd_method pd,
                      pay_transactionId = pd_transactionId pd,
                      pay_reference = pd_reference pd, pay_gateway = pd_gateway pd,
                      pay_status = ECompleted, pay_date = now\<rparr>;
               b1 = b\<lparr>payments := payments b @ [pay]\<rparr>
           in (updatePaymentMetadata now (updatePaymentStatus b1), Inr pay)))"

record refundData =
  rd_amount :: rat
  rd_reason :: string
  rd_refundTransactionId :: string

text \<open>
  \<open>addRefund\<close>: pushes a Completed refund onto the separate \<open>refunds\<close> list and
  recomputes. The random id generated when none is given is the caller's \<open>rd_refundTransactionId\<close>.
\<close>

definition addRefund :: "int \<Rightarrow> booking \<Rightarrow> refundData \<Rightarrow> booking \<times> refund" where
  "addRefund now b rd =
     (let r = \<lparr>ref_amount = rd_amount rd, ref_reason = rd_reason rd,
                ref_refundTransactionId = rd_refundTransactionId rd,
                ref_status = ECompleted, ref_date = now\<rparr>;
          b1 = b\<lparr>refunds := refunds b @ [r]\<rparr>
      in (updatePaymentMetadata now (updatePaymentStatus b1), r))"

text \<open>\<open>validatePaymentAmount\<close>: no overpayment.\<close>

definition validatePaymentAmount :: "booking \<Rightarrow> rat \<Rightarrow> error + bool" where
  "validatePaymentAmount b amount =
     (let totalPaid = getTotalPaid b; remainingAmount = totalFare b - totalPaid
      in if amount \<le> 0 then Inl InvalidAmount
         else if amount > remainingAmount then Inl AmountExceedsBalance
         else Inr True)"

text \<open>
  \<open>handleCancellation\<close> of the Booking model: the tier is chosen from the hours to
  departure, the refund is computed from the completed payments, and a positive refund is
  recorded through \<open>addRefund\<close>. When no refund is produced the method reports
  \<open>refundPercentage: 0\<close>, whatever the tier was.
\<close>

definition refundTier :: "rat \<Rightarrow> rat" where
  "refundTier hoursToDeparture =
     (if hoursToDeparture > 72 then 1
      else if hoursToDeparture > 48 then 3 / 4
      else if hoursToDeparture > 24 then 1 / 2
      else if hoursToDeparture > 12 then 1 / 4
      else 0)"

record cancellationResult =
  cr_refundAmount :: rat
  cr_refundPercentage :: rat
  cr_refundTransactionId :: "string option"

definition handleCancellation :: "int \<Rightarrow> string \<Rightarrow> booking \<Rightarrow> string \<Rightarrow> booking \<times> cancellationResult" where
  "handleCancellation now refId b reason =
     (let hoursToDeparture = of_int (departureDate b - now) / (1000 * 60 * 60);
          refundPercentage = refundTier hoursToDeparture;
          totalPaid = getTotalPaid b;
          amount = round2 (totalPaid * refundPercentage)
      in if amount > 0
         then (let (b1, r) = addRefund now b
                     \<lparr>rd_amount = amount, rd_reason = ''Cancellation: '' @ reason,
                      rd_refundTransactionId = refId\<rparr>
               in (b1, \<lparr>cr_refundAmount = amount, cr_refundPercentage = refundPercentage,
                        cr_refundTransactionId = Some (ref_refundTransactionId r)\<rparr>))
         else (b, \<lparr>cr_refundAmount = 0, cr_refundPercentage = 0,
                    cr_refundTransactionId = None\<rparr>))"

text \<open>
  \<open>updateStatus\<close> of the Booking model. Every constructor of \<open>bstatus\<close> is in its
  \<open>validStatuses\<close> list, so the invalid-status throw needs a string outside the
  enumeration; the method looks at no other condition before it assigns the new status.
\<close>

record statusChange =
  sc_oldStatus :: bstatus
  sc_newStatus :: bstatus

definition validStatuses :: "bstatus list" where
  "validStatuses = [BPending, BConfirmed, BCancelled, BCompleted, BNoShow, BRefunded]"

definition updateStatus :: "int \<Rightarrow> string \<Rightarrow> booking \<Rightarrow> bstatus \<Rightarrow> string \<Rightarrow> booking \<times> (error + statusChange)" where
  "updateStatus now refId b newStatus reason =
     (if newStatus \<notin> set validStatuses then (b, Inl InvalidStatus)
      else (let oldStatus = status b;
                b1 = b\<lparr>status := newStatus\<rparr>;
                b2 = (if newStatus = BCancelled \<or> newStatus = BRefunded
                      then fst (handleCancellation now refId b1 reason) else b1)
            in (b2, Inr \<lparr>sc_oldStatus = oldStatus, sc_newStatus = newStatus\<rparr>)))"

section \<open>Routes, buses and the fare of a booking\<close>

datatype busStatus = Active | Maintenance | Repair | Retired

record bus_doc =
  bus_id :: nat
  busNumber :: string
  capacity :: nat
  busStatus :: busStatus

record route_doc =
  route_id :: nat
  baseFare :: rat


text \<open>
  \<open>getHours()\<close> and \<open>getDay()\<close> read the server's local time: \<open>tz\<close> is its offset
  from UTC in milliseconds. 1 January 1970 was a Thursday (day 4).
\<close>

definition getHours :: "int \<Rightarrow> int \<Rightarrow> int" where
  "getHours tz t = ((t + tz) div 3600000) mod 24"

definition getDay :: "int \<Rightarrow> int \<Rightarrow> int" where
  "getDay tz t = ((t + tz) div 86400000 + 4) mod 7"

definition isPeakTimeOf :: "int \<Rightarrow> booking \<Rightarrow> bool" where
  "isPeakTimeOf tz b =
     (let departureHour = getHours tz (departureDate b)
      in (departureHour \<ge> 7 \<and> departureHour \<le> 9) \<or> (departureHour \<ge> 16 \<and> departureHour \<le> 19))"

definition isWeekendOf :: "int \<Rightarrow> booking \<Rightarrow> bool" where
  "isWeekendOf tz b = (let day = getDay tz (departureDate b) in day = 0 \<or> day = 6)"



section \<open>The hiring document\<close>

datatype hstatus =
  HPending | HApproved | HConfirmed | HCancelled | HRejected | HInProgress | HCompleted
  | HRefunded

datatype rateType = PerDay | PerHour | PerKilometer | Fixed | RouteBased

text \<open>A JavaScript number that may be \<open>NaN\<close> (arithmetic on an unset field).\<close>

datatype jsnum = Num rat | NaN

record hpayment =
  hp_amount :: rat
  hp_date :: int
  hp_method :: string
  hp_transactionId :: string
  hp_status :: entrystatus

record charge =
  ch_description :: string
  ch_amount :: rat

text \<open>
  \<open>baseRate\<close> and \<open>routePriceMultiplier\<close> are optional so that the fallbacks
  \<open>this.baseRate || route.baseFare\<close> and \<open>this.routePriceMultiplier || 1\<close> can be
  traced: \<open>None\<close> is an unset field.
\<close>

record hiring =
  hiring_id :: nat
  hiringNumber :: string
  h_status :: hstatus
  h_route :: "nat option"
  startDate :: int
  endDate :: int
  h_tripType :: tripType
  estimatedDistance :: rat
  baseRate :: "rat option"
  rateType :: rateType
  routePriceMultiplier :: "rat option"
  additionalCharges :: "charge list"
  driverAllowance :: rat
  overtimeRate :: rat
  totalCost :: jsnum
  deposit :: rat
  h_paymentStatus :: paystatus
  h_payments :: "hpayment list"
  h_bus :: nat
  h_notes :: "string option"
  cancellationPolicy :: string

text \<open>\<open>x || d\<close> on an optional number: unset and 0 are both falsy.\<close>

definition js_or :: "rat option \<Rightarrow> rat \<Rightarrow> rat" where
  "js_or x d = (case x of None \<Rightarrow> d | Some v \<Rightarrow> if v = 0 then d else v)"


section \<open>Hiring cost\<close>






section \<open>Hiring ledger and cancellation\<close>

text \<open>The \<open>totalPaid\<close> virtual: the sum of the Completed entries of \<open>payments\<close>.\<close>

definition totalPaid :: "hiring \<Rightarrow> rat" where
  "totalPaid h =
     foldl (\<lambda>sum p. if hp_status p = ECompleted then sum + hp_amount p else sum) 0
       (h_payments h)"

text \<open>The \<open>remainingBalance\<close> virtual: \<open>Math.max(0, totalCost - totalPaid)\<close>.\<close>

definition remainingBalance :: "hiring \<Rightarrow> jsnum" where
  "remainingBalance h =
     (case totalCost h of NaN \<Rightarrow> NaN | Num c \<Rightarrow> Num (max 0 (c - totalPaid h)))"

definition hiringRefundTier :: "string \<Rightarrow> rat \<Rightarrow> rat" where
  "hiringRefundTier policy daysToDeparture =
     (if policy = ''Standard'' then
        (if daysToDeparture > 14 then 9 / 10
         else if daysToDeparture > 7 then 3 / 4
         else if daysToDeparture > 3 then 1 / 2
         else if daysToDeparture > 1 then 1 / 4
         else 0)
      else if policy = ''Flexible'' then
        (if daysToDeparture > 7 then 1
         else if daysToDeparture > 3 then 4 / 5
         else if daysToDeparture > 1 then 1 / 2
         else 0)
      else if policy = ''Strict'' then
        (if daysToDeparture > 30 then 3 / 4
         else if daysToDeparture > 14 then 1 / 2
         else if daysToDeparture > 7 then 1 / 4
         else 0)
      else 0)"

record hiringCancellation =
  hc_refundAmount :: rat
  hc_refundPercentage :: rat

text \<open>
  \<open>handleCancellation\<close> of the Hiring model: a positive refund is pushed onto the same
  \<open>payments\<close> array as an entry with a negative amount, method Refund, status Completed.
  \<open>refId\<close> is the generated reference and \<open>stamp\<close> the ISO rendering of the instant.
  The function works on the document in memory. (The schema's enumeration for
  \<open>payments.method\<close> does not list Refund, so validation on a later \<open>save\<close> would
  refuse such an entry; saving is outside this function.)
\<close>

definition hiringHandleCancellation ::
  "int \<Rightarrow> string \<Rightarrow> string \<Rightarrow> hiring \<Rightarrow> string \<Rightarrow> hiring \<times> hiringCancellation" where
  "hiringHandleCancellation now refId stamp h reason =
     (let daysToDeparture = of_int (startDate h - now) / (1000 * 60 * 60 * 24);
          refundPercentage = hiringRefundTier (cancellationPolicy h) daysToDeparture;
          paid = totalPaid h;
          amount = round2 (paid * refundPercentage);
          h1 = (if amount > 0
                then (let h0 = h\<lparr>h_payments := h_payments h @
                                [\<lparr>hp_amount = - amount, hp_date = now, hp_method = ''Refund'',
                                  hp_transactionId = refId, hp_status = ECompleted\<rparr>]\<rparr>
                      in if amount \<ge> paid then h0\<lparr>h_paymentStatus := PayRefunded\<rparr>
                         else h0\<lparr>h_paymentStatus := PartiallyRefunded\<rparr>)
                else h);
          entry = ''Cancellation: '' @ (if reason = [] then ''No reason provided'' else reason)
                 @ '' ('' @ stamp @ '')'';
          h2 = h1\<lparr>h_notes := (case h_notes h1 of
                               None \<Rightarrow> Some entry
                             | Some n \<Rightarrow> if n = [] then Some entry
                                         else Some (n @ [CHR 10, CHR 10] @ entry))\<rparr>
      in (h2, \<lparr>hc_refundAmount = amount, hc_refundPercentage = refundPercentage\<rparr>))"

record hiringPaymentData =
  hpd_amount :: rat
  hpd_method :: "string option"
  hpd_transactionId :: "string option"

definition str_or :: "string option \<Rightarrow> string \<Rightarrow> string" where
  "str_or x d = (case x of None \<Rightarrow> d | Some v \<Rightarrow> if v = [] then d else v)"

text \<open>\<open>a >= b\<close> against a number that may be \<open>NaN\<close>: false on \<open>NaN\<close>.\<close>

definition js_ge :: "rat \<Rightarrow> jsnum \<Rightarrow> bool" where
  "js_ge a b = (case b of NaN \<Rightarrow> False | Num c \<Rightarrow> a \<ge> c)"

text \<open>
  \<open>processPayment\<close> of the Hiring model: validates the amount, pushes the entry and
  recomputes. It does not look for an entry with the same transaction id.
\<close>

definition processPayment ::
  "int \<Rightarrow> string \<Rightarrow> hiring \<Rightarrow> hiringPaymentData \<Rightarrow> hiring \<times> (error + hpayment)" where
  "processPayment now genId h pd =
     (if hpd_amount pd = 0 \<or> hpd_amount pd \<le> 0 then (h, Inl InvalidAmount)
      else (let pay = \<lparr>hp_amount = hpd_amount pd, hp_date = now,
                        hp_method = str_or (hpd_method pd) ''Other'',
                        hp_transactionId = str_or (hpd_transactionId pd) genId,
                        hp_status = ECompleted\<rparr>;
                h1 = h\<lparr>h_payments := h_payments h @ [pay]\<rparr>;
                paid = totalPaid h1;
                h2 = (if js_ge paid (totalCost h1) then h1\<lparr>h_paymentStatus := Paid\<rparr>
                      else if paid > 0 then h1\<lparr>h_paymentStatus := PartiallyPaid\<rparr>
                      else h1\<lparr>h_paymentStatus := PayPending\<rparr>);
                h3 = (if paid \<ge> deposit h2 \<and> h_status h2 = HPending
                      then h2\<lparr>h_status := HConfirmed\<rparr> else h2)
            in (h3, Inr pay)))"

section \<open>The data store\<close>

text \<open>
  The collections the queries run over. \<open>find\<close> of a collection is \<open>filter\<close>,
  \<open>findById\<close> is \<open>find\<close> on the identifier, \<open>save\<close> of an existing document replaces
  it.
\<close>

record db =
  db_routes :: "route_doc list"
  db_buses :: "bus_doc list"
  db_bookings :: "booking list"
  db_hirings :: "hiring list"

definition saveBooking :: "db \<Rightarrow> booking \<Rightarrow> db" where
  "saveBooking d b =
     d\<lparr>db_bookings := map (\<lambda>x. if booking_id x = booking_id b then b else x) (db_bookings d)\<rparr>"

text \<open>\<open>status: { $in: ['Confirmed', 'Pending'] }\<close> and its hiring counterpart.\<close>

definition activeBooking :: "booking \<Rightarrow> bool" where
  "activeBooking b = (status b = BConfirmed \<or> status b = BPending)"

definition activeHiring :: "hiring \<Rightarrow> bool" where
  "activeHiring h = (h_status h = HConfirmed \<or> h_status h = HPending \<or> h_status h = HInProgress)"

section \<open>Bus availability for a hiring\<close>

text \<open>
  The two queries of \<open>checkBusAvailability\<close>. A booking conflicts when its departure or
  return instant lies in the closed window of the hiring; another hiring conflicts when its
  start or its end lies in the closed window.
\<close>

definition bookingInWindow :: "hiring \<Rightarrow> booking \<Rightarrow> bool" where
  "bookingInWindow h b =
     (bus b = h_bus h
      \<and> ((departureDate b \<ge> startDate h \<and> departureDate b \<le> endDate h)
         \<or> (case returnDate b of
               None \<Rightarrow> False
             | Some r \<Rightarrow> r \<ge> startDate h \<and> r \<le> endDate h))
      \<and> activeBooking b)"

definition hiringInWindow :: "hiring \<Rightarrow> hiring \<Rightarrow> bool" where
  "hiringInWindow h other =
     (h_bus other = h_bus h
      \<and> hiring_id other \<noteq> hiring_id h
      \<and> ((startDate other \<le> endDate h \<and> startDate other \<ge> startDate h)
         \<or> (endDate other \<le> endDate h \<and> endDate other \<ge> startDate h))
      \<and> activeHiring other)"

datatype availability =
  Available bus_doc
  | BusIsMissing
  | BusIsNotActive busStatus
  | AlreadyBooked "string list"
  | AlreadyHired "string list"

definition checkBusAvailability :: "db \<Rightarrow> hiring \<Rightarrow> availability" where
  "checkBusAvailability d h =
     (case find (\<lambda>b. bus_id b = h_bus h) (db_buses d) of
        None \<Rightarrow> BusIsMissing
      | Some b \<Rightarrow>
          if busStatus b \<noteq> Active then BusIsNotActive (busStatus b)
          else (let bookings = filter (bookingInWindow h) (db_bookings d)
                in if length bookings > 0 then AlreadyBooked (map bookingNumber bookings)
                   else (let hirings = filter (hiringInWindow h) (db_hirings d)
                         in if length hirings > 0 then AlreadyHired (map hiringNumber hirings)
                            else Available b)))"

section \<open>Creating a booking\<close>

record bookingRequest =
  rq_user :: nat
  rq_route :: nat
  rq_bus :: nat
  rq_departureDate :: int
  rq_returnDate :: "int option"
  rq_bookingType :: tripType
  rq_outbound :: "string list option"
  rq_return :: "string list option"
  rq_passengers :: "passenger list"
  rq_promoCode :: "string option"
  rq_discountApplied :: "rat option"

datatype rejection =
  RouteMissing
  | BusMissing
  | BusHired "string list"
  | NotEnoughOutboundSeats int nat "string list"
  | NotEnoughReturnSeats int nat "string list"
  | DuplicateSeatSelections "string list"
  | SeatsMismatch
  | SeatsAlreadyBooked "string list" "string list"
  | ReturnSeatsAlreadyBooked "string list" "string list"
  | SaveRejected

text \<open>The hiring-conflict query: an active hiring whose closed window holds the instant.\<close>

definition hiringCovers :: "hiring \<Rightarrow> int \<Rightarrow> bool" where
  "hiringCovers h t = (startDate h \<le> t \<and> endDate h \<ge> t)"

definition hiringConflicts :: "db \<Rightarrow> bookingRequest \<Rightarrow> hiring list" where
  "hiringConflicts d rq =
     filter (\<lambda>h. h_bus h = rq_bus rq
                \<and> (hiringCovers h (rq_departureDate rq)
                   \<or> (case rq_returnDate rq of None \<Rightarrow> False | Some r \<Rightarrow> hiringCovers h r))
                \<and> activeHiring h)
       (db_hirings d)"

text \<open>
  \<open>$or: [{departureDate}, {returnDate}]\<close>, the second alternative only for a request
  with a return date.
\<close>

definition sameDates :: "bookingRequest \<Rightarrow> booking \<Rightarrow> bool" where
  "sameDates rq b =
     (departureDate b = rq_departureDate rq
      \<or> (case rq_returnDate rq of None \<Rightarrow> False | Some r \<Rightarrow> returnDate b = Some r))"

definition existingBookings :: "db \<Rightarrow> bookingRequest \<Rightarrow> booking list" where
  "existingBookings d rq =
     filter (\<lambda>b. bus b = rq_bus rq \<and> sameDates rq b \<and> activeBooking b) (db_bookings d)"

text \<open>The two \<open>Set\<close>s of booked seats; only their sizes are read.\<close>

definition bookedOutbound :: "bookingRequest \<Rightarrow> booking list \<Rightarrow> string list" where
  "bookedOutbound rq bs =
     remdups (concat (map (\<lambda>b. if departureDate b = rq_departureDate rq
                                then map seatNumber (passengers b) else []) bs))"

definition bookedReturn :: "bookingRequest \<Rightarrow> booking list \<Rightarrow> string list" where
  "bookedReturn rq bs =
     remdups (concat (map (\<lambda>b. case returnDate b of
                                 None \<Rightarrow> []
                               | Some r \<Rightarrow> if rq_returnDate rq = Some r then selectedReturn b
                                           else []) bs))"

text \<open>\<open>xs.filter((seat, index) => xs.indexOf(seat) !== index)\<close>: the later occurrences.\<close>

fun laterOccurrences :: "string list \<Rightarrow> string list \<Rightarrow> string list" where
  "laterOccurrences seen [] = []"
| "laterOccurrences seen (x # xs) =
     (if x \<in> set seen then x # laterOccurrences seen xs
      else laterOccurrences (seen @ [x]) xs)"

definition hasDuplicates :: "string list \<Rightarrow> bool" where
  "hasDuplicates xs = (length (remdups xs) \<noteq> length xs)"

definition seatsMismatch :: "string list \<Rightarrow> passenger list \<Rightarrow> bool" where
  "seatsMismatch outboundSeats ps =
     (if length outboundSeats \<noteq> length ps then True
      else \<not> list_all (\<lambda>seat. seat \<in> set (map seatNumber ps)) outboundSeats)"

text \<open>
  The seat-conflict queries. Both compare the requested seats with the
  \<open>passengers.seatNumber\<close> of the stored bookings; the return query selects on
  \<open>returnDate\<close> equal to the requested one (a request without return date matches
  bookings without one).
\<close>

definition holdsSeatIn :: "string list \<Rightarrow> booking \<Rightarrow> bool" where
  "holdsSeatIn seats b = list_ex (\<lambda>p. seatNumber p \<in> set seats) (passengers b)"

definition existingSeatConflicts :: "db \<Rightarrow> bookingRequest \<Rightarrow> string list \<Rightarrow> booking list" where
  "existingSeatConflicts d rq seats =
     filter (\<lambda>b. bus b = rq_bus rq \<and> sameDates rq b \<and> activeBooking b \<and> holdsSeatIn seats b)
       (db_bookings d)"

definition returnSeatConflicts :: "db \<Rightarrow> bookingRequest \<Rightarrow> string list \<Rightarrow> booking list" where
  "returnSeatConflicts d rq seats =
     filter (\<lambda>b. bus b = rq_bus rq \<and> returnDate b = rq_returnDate rq \<and> activeBooking b
                \<and> holdsSeatIn seats b)
       (db_bookings d)"

definition seatsHeld :: "string list \<Rightarrow> booking list \<Rightarrow> string list" where
  "seatsHeld seats bs =
     remdups (concat (map (\<lambda>b. filter (\<lambda>s. s \<in> set seats) (map seatNumber (passengers b))) bs))"

text \<open>The fare of the controller: base fare per passenger, doubled, discounted, rounded.\<close>

definition requestFare :: "route_doc \<Rightarrow> bookingRequest \<Rightarrow> rat" where
  "requestFare r rq =
     (let t0 = baseFare r * of_nat (length (rq_passengers rq));
          t1 = (if rq_bookingType rq = RoundTrip then t0 * 2 else t0);
          t2 = (if rq_promoCode rq = Some ''WELCOME10'' then t1 * (9 / 10) else t1)
      in round2 t2)"

definition newBooking :: "nat \<Rightarrow> string \<Rightarrow> route_doc \<Rightarrow> bookingRequest \<Rightarrow> booking" where
  "newBooking newId newNumber r rq =
     \<lparr>booking_id = newId, bookingNumber = newNumber, bookingType = rq_bookingType rq,
      status = BPending, passengers = rq_passengers rq, route = rq_route rq, bus = rq_bus rq,
      departureDate = rq_departureDate rq, returnDate = rq_returnDate rq,
      selectedOutbound = (case rq_outbound rq of None \<Rightarrow> [] | Some xs \<Rightarrow> xs),
      selectedReturn = (case rq_return rq of None \<Rightarrow> [] | Some xs \<Rightarrow> xs),
      totalFare = requestFare r rq, paymentStatus = PayPending, payments = [], refunds = [],
      paymentMetadata = \<lparr>md_totalPaid = 0, md_totalRefunded = 0, md_lastPaymentDate = None,
        md_lastPaymentMethod = None, md_paymentCompletedAt = None\<rparr>,
      discountApplied = Some (js_or (rq_discountApplied rq) 0), statusHistory = [],
      cancellationReason = None, cancelledAt = None, cancelledBy = None,
      refundAmount = None\<rparr>"

text \<open>
  The checks of \<open>createBooking\<close> after route and bus are found and no hiring holds the
  bus, in the order of the source: capacity (outbound, return), duplicates, match of
  selected and passenger seats, outbound seat conflicts, return seat conflicts.
  \<open>None\<close> means every check passed.
\<close>

definition seatChecks :: "db \<Rightarrow> bus_doc \<Rightarrow> bookingRequest \<Rightarrow> rejection option" where
  "seatChecks d busData rq =
     (let existing = existingBookings d rq;
          outSize = length (bookedOutbound rq existing);
          retSize = length (bookedReturn rq existing);
          requiredSeats = length (rq_passengers rq);
          outboundSeats = (case rq_outbound rq of None \<Rightarrow> [] | Some xs \<Rightarrow> xs);
          returnSeats = (case rq_return rq of None \<Rightarrow> [] | Some xs \<Rightarrow> xs);
          passengerSeats = map seatNumber (rq_passengers rq)
      in if outSize + requiredSeats > capacity busData
         then Some (NotEnoughOutboundSeats (int (capacity busData) - int outSize) requiredSeats
                      (map bookingNumber existing))
         else if rq_bookingType rq = RoundTrip \<and> retSize + requiredSeats > capacity busData
         then Some (NotEnoughReturnSeats (int (capacity busData) - int retSize) requiredSeats
                      (map bookingNumber existing))
         else if hasDuplicates outboundSeats \<or> hasDuplicates passengerSeats
         then Some (DuplicateSeatSelections
                      (laterOccurrences [] outboundSeats @ laterOccurrences [] passengerSeats))
         else if seatsMismatch outboundSeats (rq_passengers rq) then Some SeatsMismatch
         else if length outboundSeats > 0
         then (let conflicts = existingSeatConflicts d rq outboundSeats
               in if length conflicts > 0
                  then Some (SeatsAlreadyBooked (seatsHeld outboundSeats conflicts)
                               (map bookingNumber conflicts))
                  else if rq_bookingType rq = RoundTrip \<and> length returnSeats > 0
                  then (let returnConflicts = returnSeatConflicts d rq returnSeats
                        in if length returnConflicts > 0
                           then Some (ReturnSeatsAlreadyBooked
                                        (seatsHeld returnSeats returnConflicts)
                                        (map bookingNumber returnConflicts))
                           else None)
                  else None)
         else None)"

text \<open>
  \<open>createBooking\<close>: the data store after the request and its outcome. \<open>save\<close> runs the
  schema validation, which requires a return date for a round trip.
\<close>

definition createBooking :: "nat \<Rightarrow> string \<Rightarrow> db \<Rightarrow> bookingRequest \<Rightarrow> db \<times> (rejection + booking)" where
  "createBooking newId newNumber d rq =
     (case find (\<lambda>r. route_id r = rq_route rq) (db_routes d) of
        None \<Rightarrow> (d, Inl RouteMissing)
      | Some routeData \<Rightarrow>
          (case find (\<lambda>b. bus_id b = rq_bus rq) (db_buses d) of
             None \<Rightarrow> (d, Inl BusMissing)
           | Some busData \<Rightarrow>
               (let conflicts = hiringConflicts d rq
                in if length conflicts > 0 then (d, Inl (BusHired (map hiringNumber conflicts)))
                   else (case seatChecks d busData rq of
                           Some r \<Rightarrow> (d, Inl r)
                         | None \<Rightarrow>
                             (let b = newBooking newId newNumber routeData rq
                              in if bookingType b = RoundTrip \<and> returnDate b = None
                                 then (d, Inl SaveRejected)
                                 else (d\<lparr>db_bookings := db_bookings d @ [b]\<rparr>, Inr b))))))"

section \<open>Seat availability of a stored booking\<close>

text \<open>
  \<open>checkSeatAvailability\<close> of the Booking model looks at the other Pending or Confirmed
  bookings of the same route and bus that depart on the same local day
  (\<open>setHours(0,0,0,0)\<close> up to, excluding, \<open>setHours(23,59,59,999)\<close>), and for a round
  trip at those departing on the day of the return; in both cases it compares with their
  passenger seats.
\<close>

definition startOfDay :: "int \<Rightarrow> int \<Rightarrow> int" where
  "startOfDay tz t = t - (t + tz) mod 86400000"

definition endOfDay :: "int \<Rightarrow> int \<Rightarrow> int" where
  "endOfDay tz t = startOfDay tz t + 86399999"

definition sameDayBookings :: "int \<Rightarrow> booking list \<Rightarrow> booking \<Rightarrow> int \<Rightarrow> booking list" where
  "sameDayBookings tz bs this day =
     filter (\<lambda>b. route b = route this \<and> bus b = bus this
                \<and> departureDate b \<ge> startOfDay tz day \<and> departureDate b < endOfDay tz day
                \<and> activeBooking b \<and> booking_id b \<noteq> booking_id this) bs"

record seatAvailability =
  isAvailable :: bool
  conflictingSeats :: "string list"
  returnConflictingSeats :: "string list"

definition checkSeatAvailability :: "int \<Rightarrow> booking list \<Rightarrow> booking \<Rightarrow> seatAvailability" where
  "checkSeatAvailability tz bs this =
     (let bookedSeats = concat (map (\<lambda>b. map seatNumber (passengers b))
                                 (sameDayBookings tz bs this (departureDate this)));
          conflicting = filter (\<lambda>s. s \<in> set bookedSeats) (map seatNumber (passengers this));
          returnConflicting =
            (case returnDate this of
               None \<Rightarrow> []
             | Some r \<Rightarrow>
                 if bookingType this = RoundTrip
                 then (let returnBookedSeats = concat (map (\<lambda>b. map seatNumber (passengers b))
                                                       (sameDayBookings tz bs this r))
                       in filter (\<lambda>s. s \<in> set returnBookedSeats) (selectedReturn this))
                 else [])
      in \<lparr>isAvailable = (conflicting = [] \<and> returnConflicting = []),
          conflictingSeats = conflicting, returnConflictingSeats = returnConflicting\<rparr>)"

section \<open>Status changes and cancellation through the controller\<close>

record actor =
  actor_id :: nat
  actor_isAdmin :: bool

datatype statusError =
  StatusNotAllowed | StatusBookingNotFound | CancelledIsFinal | CompletedIsFinal

definition controllerValidStatuses :: "bstatus list" where
  "controllerValidStatuses = [BPending, BConfirmed, BCancelled, BCompleted, BNoShow]"

text \<open>
  \<open>updateBookingStatus\<close>: rejects a status outside its list, an unknown booking, and any
  change of a Cancelled or Completed booking to a different status; otherwise assigns the
  status, appends to the history and saves.
\<close>

definition updateBookingStatus ::
  "int \<Rightarrow> actor \<Rightarrow> bstatus \<Rightarrow> string option \<Rightarrow> db \<Rightarrow> nat \<Rightarrow> db \<times> (statusError + booking)" where
  "updateBookingStatus now user newStatus notesOpt d bid =
     (if newStatus \<notin> set controllerValidStatuses then (d, Inl StatusNotAllowed)
      else (case find (\<lambda>b. booking_id b = bid) (db_bookings d) of
              None \<Rightarrow> (d, Inl StatusBookingNotFound)
            | Some b \<Rightarrow>
                if status b = BCancelled \<and> newStatus \<noteq> BCancelled then (d, Inl CancelledIsFinal)
                else if status b = BCompleted \<and> newStatus \<noteq> BCompleted
                then (d, Inl CompletedIsFinal)
                else (let b1 = b\<lparr>status := newStatus,
                                  statusHistory := statusHistory b @
                                    [\<lparr>se_status = newStatus, se_date = now,
                                      se_notes = str_or notesOpt [], se_updatedBy = actor_id user\<rparr>]\<rparr>;
                          b2 = (if newStatus = BCancelled
                                then b1\<lparr>cancellationReason := Some (str_or notesOpt ''Cancelled by admin''),
                                        cancelledAt := Some now\<rparr>
                                else b1)
                      in (saveBooking d b2, Inr b2))))"

datatype cancelError =
  CancelBookingNotFound | AlreadyCancelled | CannotCancelCompleted | TooLateToCancel rat

record cancelResponse =
  resp_refundAmount :: rat
  resp_refundPercentage :: rat

text \<open>
  The refund of \<open>cancelBooking\<close>: computed only for a Paid or Partially Paid booking, with
  the tiers above 72, 48 and 24 hours and one half for an admin otherwise; the amount is
  taken from the sum of all payment entries.
\<close>

definition controllerTier :: "rat \<Rightarrow> bool \<Rightarrow> rat" where
  "controllerTier hoursToDeparture isAdmin =
     (if hoursToDeparture > 72 then 1
      else if hoursToDeparture > 48 then 3 / 4
      else if hoursToDeparture > 24 then 1 / 2
      else if isAdmin then 1 / 2
      else 0)"

definition controllerRefund :: "booking \<Rightarrow> rat \<Rightarrow> bool \<Rightarrow> cancelResponse" where
  "controllerRefund b hoursToDeparture isAdmin =
     (if paymentStatus b = Paid \<or> paymentStatus b = PartiallyPaid
      then (let refundPercentage = controllerTier hoursToDeparture isAdmin;
                paid = foldl (\<lambda>sum p. sum + pay_amount p) 0 (payments b)
            in \<lparr>resp_refundAmount = round2 (paid * refundPercentage),
                resp_refundPercentage = refundPercentage\<rparr>)
      else \<lparr>resp_refundAmount = 0, resp_refundPercentage = 0\<rparr>)"

text \<open>
  \<open>cancelBooking\<close>: a Cancelled or Completed booking is refused; so is a request less than
  24 hours before departure from an actor who is not an admin. Every refusal returns
  before the document is touched.
\<close>

definition cancelBooking ::
  "int \<Rightarrow> actor \<Rightarrow> string option \<Rightarrow> db \<Rightarrow> nat \<Rightarrow> db \<times> (cancelError + cancelResponse)" where
  "cancelBooking now user reason d bid =
     (case find (\<lambda>b. booking_id b = bid) (db_bookings d) of
        None \<Rightarrow> (d, Inl CancelBookingNotFound)
      | Some b \<Rightarrow>
          if status b = BCancelled then (d, Inl AlreadyCancelled)
          else if status b = BCompleted then (d, Inl CannotCancelCompleted)
          else (let hoursToDeparture = of_int (departureDate b - now) / (1000 * 60 * 60);
                    isAdmin = actor_isAdmin user
                in if hoursToDeparture < 24 \<and> \<not> isAdmin
                   then (d, Inl (TooLateToCancel hoursToDeparture))
                   else (let resp = controllerRefund b hoursToDeparture isAdmin;
                             b1 = b\<lparr>status := BCancelled,
                                    cancellationReason := Some (str_or reason ''Cancelled by user''),
                                    cancelledAt := Some now,
                                    cancelledBy := Some (actor_id user),
                                    refundAmount := Some (resp_refundAmount resp),
                                    statusHistory := statusHistory b @
                                      [\<lparr>se_status = BCancelled, se_date = now,
                                        se_notes = str_or reason ''Cancelled by user'',
                                        se_updatedBy = actor_id user\<rparr>]\<rparr>
                         in (saveBooking d b1, Inr resp))))"

section \<open>Sample documents\<close>

definition emptyMetadata :: paymentMetadata where
  "emptyMetadata = \<lparr>md_totalPaid = 0, md_totalRefunded = 0, md_lastPaymentDate = None,
     md_lastPaymentMethod = None, md_paymentCompletedAt = None\<rparr>"

definition sampleBooking :: booking where
  "sampleBooking = \<lparr>booking_id = 1, bookingNumber = ''BKG-0001'', bookingType = OneWay,
     status = BPending,
     passengers = [\<lparr>seatNumber = ''A1'', passengerType = Adult\<rparr>],
     route = 1, bus = 1, departureDate = 1736510400000, returnDate = None,
     selectedOutbound = [''A1''], selectedReturn = [],
     totalFare = 100, paymentStatus = PayPending, payments = [], refunds = [],
     paymentMetadata = emptyMetadata, discountApplied = None, statusHistory = [],
     cancellationReason = None, cancelledAt = None, cancelledBy = None,
     refundAmount = None\<rparr>"


definition sampleHiring :: hiring where
  "sampleHiring = \<lparr>hiring_id = 1, hiringNumber = ''HIR-0001'', h_status = HPending,
     h_route = Some 1, startDate = 1723708800000, endDate = 1723744800000,
     h_tripType = OneWay, estimatedDistance = 500, baseRate = None,
     rateType = RouteBased, routePriceMultiplier = Some 1, additionalCharges = [],
     driverAllowance = 0, overtimeRate = 0, totalCost = Num 375000, deposit = 100000,
     h_paymentStatus = PayPending, h_payments = [], h_bus = 1, h_notes = None,
     cancellationPolicy = ''Standard''\<rparr>"

definition sampleHiringPayment :: hiringPaymentData where
  "sampleHiringPayment = \<lparr>hpd_amount = 40000, hpd_method = Some ''Credit Card'',
     hpd_transactionId = Some ''PSK-REF-1''\<rparr>"

definition paidHiring :: hiring where
  "paidHiring = \<lparr>hiring_id = 2, hiringNumber = ''HIR-0002'', h_status = HConfirmed,
     h_route = Some 1, startDate = 1723708800000, endDate = 1723744800000,
     h_tripType = OneWay, estimatedDistance = 500, baseRate = Some 15000,
     rateType = RouteBased, routePriceMultiplier = Some 1, additionalCharges = [],
     driverAllowance = 0, overtimeRate = 0, totalCost = Num 375000, deposit = 100000,
     h_paymentStatus = PartiallyPaid,
     h_payments = [\<lparr>hp_amount = 200000, hp_date = 1722000000000, hp_method = ''Bank Transfer'',
                    hp_transactionId = ''PAY-7'', hp_status = ECompleted\<rparr>],
     h_bus = 1, h_notes = None, cancellationPolicy = ''Standard''\<rparr>"

definition sampleRefund :: refundData where
  "sampleRefund = \<lparr>rd_amount = 25, rd_reason = ''Cancellation: '',
     rd_refundTransactionId = ''REF-0001''\<rparr>"

definition paidBooking :: booking where
  "paidBooking = sampleBooking\<lparr>booking_id := 2, bookingNumber := ''BKG-0002'',
     status := BConfirmed, paymentStatus := Paid,
     payments := [\<lparr>pay_amount = 100, pay_method = ''Paystack'', pay_transactionId = ''TXN-9'',
                   pay_reference = ''TXN-9'', pay_gateway = ''Paystack'',
                   pay_status = ECompleted, pay_date = 1736000000000\<rparr>]\<rparr>"

definition sampleAdmin :: actor where
  "sampleAdmin = \<lparr>actor_id = 900, actor_isAdmin = True\<rparr>"

definition sampleUser :: actor where
  "sampleUser = \<lparr>actor_id = 17, actor_isAdmin = False\<rparr>"

definition sampleDb :: db where
  "sampleDb = \<lparr>db_routes = [\<lparr>route_id = 1, baseFare = 15000\<rparr>],
     db_buses = [\<lparr>bus_id = 1, busNumber = ''AKTC-123'', capacity = 25, busStatus = Active\<rparr>],
     db_bookings = [sampleBooking, paidBooking], db_hirings = []\<rparr>"

definition cancelledBooking :: booking where
  "cancelledBooking = sampleBooking\<lparr>booking_id := 3, bookingNumber := ''BKG-0003'',
     status := BCancelled\<rparr>"

definition completedBooking :: booking where
  "completedBooking = sampleBooking\<lparr>booking_id := 4, bookingNumber := ''BKG-0004'',
     status := BCompleted\<rparr>"





definition existingHire :: hiring where
  "existingHire = sampleHiring\<lparr>hiring_id := 10, hiringNumber := ''HIR-0010'',
     h_status := HConfirmed, startDate := 1736150400000, endDate := 1736510400000\<rparr>"


definition enclosedRequest :: hiring where
  "enclosedRequest = sampleHiring\<lparr>hiring_id := 12, hiringNumber := ''HIR-0012'',
     startDate := 1736251200000, endDate := 1736445600000\<rparr>"

definition hireDb :: db where
  "hireDb = sampleDb\<lparr>db_bookings := [], db_hirings := [existingHire]\<rparr>"

definition emptyDb :: db where
  "emptyDb = sampleDb\<lparr>db_bookings := [], db_hirings := []\<rparr>"

definition firstRoundTrip :: bookingRequest where
  "firstRoundTrip = \<lparr>rq_user = 17, rq_route = 1, rq_bus = 1,
     rq_departureDate = 1736510400000, rq_returnDate = Some 1736683200000,
     rq_bookingType = RoundTrip, rq_outbound = Some [''1''], rq_return = Some [''2''],
     rq_passengers = [\<lparr>seatNumber = ''1'', passengerType = Adult\<rparr>],
     rq_promoCode = None, rq_discountApplied = None\<rparr>"

definition secondRoundTrip :: bookingRequest where
  "secondRoundTrip = \<lparr>rq_user = 18, rq_route = 1, rq_bus = 1,
     rq_departureDate = 1736445600000, rq_returnDate = Some 1736683200000,
     rq_bookingType = RoundTrip, rq_outbound = Some [''5''], rq_return = Some [''2''],
     rq_passengers = [\<lparr>seatNumber = ''5'', passengerType = Adult\<rparr>],
     rq_promoCode = None, rq_discountApplied = None\<rparr>"

section \<open>Rounding facts\<close>

lemma js_round_of_int [simp]: "js_round (of_int n) = n"
  unfolding js_round_def by (rule floor_unique) simp_all

lemma js_round_numeral [simp]: "js_round (numeral k) = numeral k"
  using js_round_of_int [of "numeral k"] by simp

lemma js_round_zero [simp]: "js_round 0 = 0"
  using js_round_of_int [of 0] by simp

lemma js_round_quotient:
  "0 < q \<Longrightarrow> js_round (of_int p / of_int q) = (2 * p + q) div (2 * q)"
proof -
  assume q: "0 < q"
  have "(of_int p / of_int q + 1 / 2 :: rat) = of_int (2 * p + q) / of_int (2 * q)"
    using q by (simp add: field_simps)
  then show ?thesis
    unfolding js_round_def by (simp only: floor_divide_of_int_eq)
qed

lemma js_round_numeral_div [simp]:
  "js_round (numeral a / numeral b) = (2 * numeral a + numeral b) div (2 * numeral b)"
  using js_round_quotient [of "numeral b" "numeral a"] by simp

section \<open>Ledger facts\<close>

lemma foldl_add_shift:
  "foldl (\<lambda>t x. t + f x) (a :: rat) xs = a + foldl (\<lambda>t x. t + f x) 0 xs"
proof (induction xs arbitrary: a)
  case Nil
  show ?case by simp
next
  case (Cons x xs)
  have "foldl (\<lambda>t x. t + f x) (a + f x) xs = (a + f x) + foldl (\<lambda>t x. t + f x) 0 xs"
    by (rule Cons.IH)
  moreover have "foldl (\<lambda>t x. t + f x) (0 + f x) xs = f x + foldl (\<lambda>t x. t + f x) 0 xs"
    using Cons.IH [of "f x"] by simp
  ultimately show ?case by simp
qed

lemma getTotalPaid_metadata [simp]:
  "getTotalPaid (b\<lparr>paymentMetadata := m\<rparr>) = getTotalPaid b"
  by (simp add: getTotalPaid_def)

lemma getTotalRefunded_metadata [simp]:
  "getTotalRefunded (b\<lparr>paymentMetadata := m\<rparr>) = getTotalRefunded b"
  by (simp add: getTotalRefunded_def)

lemma getTotalPaid_updatePaymentStatus [simp]:
  "getTotalPaid (updatePaymentStatus b) = getTotalPaid b"
  by (simp add: updatePaymentStatus_def getTotalPaid_def Let_def)

lemma getTotalRefunded_updatePaymentStatus [simp]:
  "getTotalRefunded (updatePaymentStatus b) = getTotalRefunded b"
  by (simp add: updatePaymentStatus_def getTotalRefunded_def Let_def)

lemma getTotalPaid_updatePaymentMetadata [simp]:
  "getTotalPaid (updatePaymentMetadata now b) = getTotalPaid b"
  by (simp add: updatePaymentMetadata_def Let_def)

lemma getTotalRefunded_updatePaymentMetadata [simp]:
  "getTotalRefunded (updatePaymentMetadata now b) = getTotalRefunded b"
  by (simp add: updatePaymentMetadata_def Let_def)

lemma paymentStatus_updatePaymentMetadata [simp]:
  "paymentStatus (updatePaymentMetadata now b) = paymentStatus b"
  by (simp add: updatePaymentMetadata_def Let_def)

lemma totalFare_updatePaymentMetadata [simp]:
  "totalFare (updatePaymentMetadata now b) = totalFare b"
  by (simp add: updatePaymentMetadata_def Let_def)

lemma totalFare_updatePaymentStatus [simp]:
  "totalFare (updatePaymentStatus b) = totalFare b"
  by (simp add: updatePaymentStatus_def Let_def)


lemma getTotalRefunded_push:
  "getTotalRefunded (b\<lparr>refunds := refunds b @ [r]\<rparr>) =
     getTotalRefunded b + (if ref_status r = ECompleted then ref_amount r else 0)"
  by (simp add: getTotalRefunded_def foldl_add_shift [of _ "_ + _"])



lemma getTotalRefunded_payments [simp]:
  "getTotalRefunded (b\<lparr>payments := ps\<rparr>) = getTotalRefunded b"
  by (simp add: getTotalRefunded_def)

lemma getTotalPaid_refunds [simp]:
  "getTotalPaid (b\<lparr>refunds := rs\<rparr>) = getTotalPaid b"
  by (simp add: getTotalPaid_def)


lemma addRefund_totals:
  "addRefund now b rd = (b', r) \<Longrightarrow>
     getTotalPaid b' = getTotalPaid b \<and>
     getTotalRefunded b' = getTotalRefunded b + rd_amount rd \<and>
     totalFare b' = totalFare b"
  by (auto simp: addRefund_def Let_def getTotalRefunded_push)

section \<open>C1: precedence of the derived payment status\<close>




section \<open>C2: a repeated transaction id\<close>

lemma payments_updatePaymentStatus [simp]:
  "payments (updatePaymentStatus b) = payments b"
  by (simp add: updatePaymentStatus_def Let_def)

lemma payments_updatePaymentMetadata [simp]:
  "payments (updatePaymentMetadata now b) = payments b"
  by (simp add: updatePaymentMetadata_def Let_def)

lemma find_append_last:
  "P x \<Longrightarrow> find P (xs @ [x]) \<noteq> None"
  by (induction xs) auto

text \<open>
  For a booking the second \<open>addPayment\<close> with the transaction id of a recorded payment
  throws and returns the document as it was after the first call.
\<close>

lemma addPayment_duplicate_rejected:
  assumes first: "addPayment now b pd = (b1, Inr pay)"
    and same: "pd_transactionId pd' = pd_transactionId pd"
  shows "addPayment now' b1 pd' = (b1, Inl DuplicateTransaction)"
proof -
  have "payments b1 = payments b @ [pay]" and "pay_transactionId pay = pd_transactionId pd"
    using first by (auto simp: addPayment_def Let_def split: option.splits)
  then have "find (\<lambda>p. pay_transactionId p = pd_transactionId pd') (payments b1) \<noteq> None"
    using same by (simp add: find_append_last)
  then show ?thesis
    by (auto simp: addPayment_def)
qed

text \<open>
  C2. Adding a payment whose transaction id is already in the ledger of the reservation
  must be rejected and leave ledger, total paid and payment status as they were. For a
  hiring \<open>processPayment\<close> has no such check: the same payment data, processed twice,
  is appended twice and the total paid doubles.
\<close>

theorem hiring_processPayment_repeats_transaction:
  "(let (h1, r1) = processPayment 1000 ''PAY-0001'' sampleHiring sampleHiringPayment;
        (h2, r2) = processPayment 2000 ''PAY-0002'' h1 sampleHiringPayment
    in isl r1 = False \<and> isl r2 = False
       \<and> map hp_transactionId (h_payments h1) = [''PSK-REF-1'']
       \<and> map hp_transactionId (h_payments h2) = [''PSK-REF-1'', ''PSK-REF-1'']
       \<and> totalPaid h1 = 40000 \<and> totalPaid h2 = 80000
       \<and> h_payments h2 \<noteq> h_payments h1)"
  by (simp add: processPayment_def sampleHiring_def sampleHiringPayment_def Let_def
      str_or_def totalPaid_def js_ge_def)

section \<open>C10: a hiring refund is a negative payment\<close>

lemma hiringHandleCancellation_ledger:
  assumes run: "hiringHandleCancellation now refId stamp h reason = (h', res)"
    and produced: "hc_refundAmount res > 0"
  shows "h_payments h' = h_payments h @
           [\<lparr>hp_amount = - hc_refundAmount res, hp_date = now, hp_method = ''Refund'',
             hp_transactionId = refId, hp_status = ECompleted\<rparr>]"
    and "totalPaid h' = totalPaid h - hc_refundAmount res"
    and "totalCost h' = totalCost h"
  using run produced
  by (auto simp: hiringHandleCancellation_def Let_def totalPaid_def split: if_splits)

text \<open>
  C10. When the cancellation of a hiring produces a refund, the refund is appended to the
  same \<open>payments\<close> array as an entry with the negated amount, method Refund and status
  Completed; the \<open>totalPaid\<close> virtual therefore drops by the refund amount, and
  \<open>remainingBalance = max(0, totalCost - totalPaid)\<close> follows it: it never decreases,
  and grows by exactly the refund amount when the hiring was not overpaid. A booking keeps
  refunds in the separate \<open>refunds\<close> list: \<open>addRefund\<close> leaves its payments and
  its total paid unchanged.
\<close>

theorem hiring_refund_is_negative_payment:
  assumes run: "hiringHandleCancellation now refId stamp h reason = (h', res)"
    and produced: "hc_refundAmount res > 0"
    and cost: "totalCost h = Num c"
  shows "h_payments h' = h_payments h @
           [\<lparr>hp_amount = - hc_refundAmount res, hp_date = now, hp_method = ''Refund'',
             hp_transactionId = refId, hp_status = ECompleted\<rparr>]
       \<and> totalPaid h' = totalPaid h - hc_refundAmount res
       \<and> remainingBalance h = Num (max 0 (c - totalPaid h))
       \<and> remainingBalance h' = Num (max 0 (c - totalPaid h + hc_refundAmount res))
       \<and> max 0 (c - totalPaid h) \<le> max 0 (c - totalPaid h + hc_refundAmount res)
       \<and> (totalPaid h \<le> c \<longrightarrow>
            remainingBalance h' = Num (max 0 (c - totalPaid h) + hc_refundAmount res))
       \<and> getTotalPaid (fst (addRefund now b rd)) = getTotalPaid b
       \<and> payments (fst (addRefund now b rd)) = payments b
       \<and> refunds (fst (addRefund now b rd)) = refunds b @ [snd (addRefund now b rd)]"
proof -
  note l = hiringHandleCancellation_ledger [OF run produced]
  have rb: "remainingBalance h = Num (max 0 (c - totalPaid h))"
    by (simp add: remainingBalance_def cost)
  have rb': "remainingBalance h' = Num (max 0 (c - totalPaid h + hc_refundAmount res))"
    by (simp add: remainingBalance_def l cost)
  have mono: "max 0 (c - totalPaid h) \<le> max 0 (c - totalPaid h + hc_refundAmount res)"
    using produced by simp
  have exact: "totalPaid h \<le> c \<Longrightarrow>
      remainingBalance h' = Num (max 0 (c - totalPaid h) + hc_refundAmount res)"
    using produced by (simp add: rb' max_def)
  have bk: "getTotalPaid (fst (addRefund now b rd)) = getTotalPaid b"
    "payments (fst (addRefund now b rd)) = payments b"
    "refunds (fst (addRefund now b rd)) = refunds b @ [snd (addRefund now b rd)]"
    by (simp_all add: addRefund_def Let_def getTotalPaid_def updatePaymentStatus_def updatePaymentMetadata_def)
  show ?thesis
    using l(1,2) rb rb' mono exact bk by simp
qed

lemma paidHiring_cancel:
  "hiringHandleCancellation 1722500000000 ''REF-1'' ''2024-07-31'' paidHiring ''plans changed''
   = (fst (hiringHandleCancellation 1722500000000 ''REF-1'' ''2024-07-31'' paidHiring ''plans changed''),
      \<lparr>hc_refundAmount = 150000, hc_refundPercentage = 3 / 4\<rparr>)"
  by (simp add: hiringHandleCancellation_def paidHiring_def Let_def hiringRefundTier_def
      totalPaid_def round2_def)

theorem hiring_refund_is_negative_payment_witness:
  "hiringHandleCancellation 1722500000000 ''REF-1'' ''2024-07-31'' paidHiring ''plans changed''
     = (fst (hiringHandleCancellation 1722500000000 ''REF-1'' ''2024-07-31'' paidHiring
               ''plans changed''),
        \<lparr>hc_refundAmount = 150000, hc_refundPercentage = 3 / 4\<rparr>)
   \<and> totalCost paidHiring = Num 375000
   \<and> totalPaid paidHiring = 200000
   \<and> totalPaid (fst (hiringHandleCancellation 1722500000000 ''REF-1'' ''2024-07-31'' paidHiring
                      ''plans changed'')) = 50000
   \<and> remainingBalance paidHiring = Num 175000
   \<and> remainingBalance (fst (hiringHandleCancellation 1722500000000 ''REF-1'' ''2024-07-31''
                             paidHiring ''plans changed'')) = Num 325000
   \<and> getTotalPaid (fst (addRefund 1722500000000 sampleBooking sampleRefund))
       = getTotalPaid sampleBooking"
proof -
  have cost: "totalCost paidHiring = Num 375000" and paid: "totalPaid paidHiring = 200000"
    by (simp_all add: paidHiring_def totalPaid_def)
  have pos: "hc_refundAmount \<lparr>hc_refundAmount = 150000, hc_refundPercentage = 3 / 4\<rparr> > 0"
    by simp
  from hiring_refund_is_negative_payment [OF paidHiring_cancel pos cost,
      of sampleBooking sampleRefund]
  show ?thesis
    using paidHiring_cancel cost paid by simp
qed

section \<open>C3: refund tiers of a booking cancellation\<close>











section \<open>C8: cancellation less than 24 hours before departure\<close>

lemma cancelBooking_refused:
  assumes found: "find (\<lambda>b. booking_id b = bid) (db_bookings d) = Some b"
    and late: "of_int (departureDate b - now) / (1000 * 60 * 60) < (24 :: rat)"
    and user: "\<not> actor_isAdmin user"
  shows "cancelBooking now user reason d bid =
      (d, Inl (if status b = BCancelled then AlreadyCancelled
               else if status b = BCompleted then CannotCancelCompleted
               else TooLateToCancel (of_int (departureDate b - now) / (1000 * 60 * 60))))"
  using found late user by (simp add: cancelBooking_def Let_def)

lemma cancelBooking_admin:
  assumes found: "find (\<lambda>b. booking_id b = bid) (db_bookings d) = Some b"
    and late: "of_int (departureDate b - now) / (1000 * 60 * 60) < (24 :: rat)"
    and user: "actor_isAdmin user"
    and live: "status b \<noteq> BCancelled" "status b \<noteq> BCompleted"
  shows "cancelBooking now user reason d bid =
     (let resp = (if paymentStatus b = Paid \<or> paymentStatus b = PartiallyPaid
                  then \<lparr>resp_refundAmount =
                          round2 (foldl (\<lambda>sum p. sum + pay_amount p) 0 (payments b) * (1 / 2)),
                        resp_refundPercentage = 1 / 2\<rparr>
                  else \<lparr>resp_refundAmount = 0, resp_refundPercentage = 0\<rparr>)
      in (saveBooking d
            (b\<lparr>status := BCancelled,
               cancellationReason := Some (str_or reason ''Cancelled by user''),
               cancelledAt := Some now,
               cancelledBy := Some (actor_id user),
               refundAmount := Some (resp_refundAmount resp),
               statusHistory := statusHistory b @
                 [\<lparr>se_status = BCancelled, se_date = now,
                   se_notes = str_or reason ''Cancelled by user'',
                   se_updatedBy = actor_id user\<rparr>]\<rparr>),
          Inr resp))"
  using found late user live
  by (simp add: cancelBooking_def Let_def controllerRefund_def controllerTier_def)

text \<open>
  C8 (as the code has it). For a cancellation through \<open>cancelBooking\<close> requested less
  than 24 hours before departure: an actor who is not an admin is refused and the data
  store is unchanged (the refusal is the too-late one when the booking is neither
  Cancelled nor Completed); an admin's cancellation of a booking that is neither Cancelled
  nor Completed proceeds and the booking is saved as Cancelled; its refund percentage is
  50%, whatever the hour below 24, when the payment status is Paid or Partially Paid, and
  percentage and amount are 0 for any other payment status.
\<close>

theorem late_cancellation_guard:
  assumes found: "find (\<lambda>b. booking_id b = bid) (db_bookings d) = Some b"
    and hours: "h = of_int (departureDate b - now) / (1000 * 60 * 60)"
    and late: "h < 24"
  shows "(\<not> actor_isAdmin user \<longrightarrow>
            fst (cancelBooking now user reason d bid) = d
            \<and> isl (snd (cancelBooking now user reason d bid)))
       \<and> (\<not> actor_isAdmin user \<and> status b \<noteq> BCancelled \<and> status b \<noteq> BCompleted \<longrightarrow>
            snd (cancelBooking now user reason d bid) = Inl (TooLateToCancel h))
       \<and> (actor_isAdmin user \<and> status b \<noteq> BCancelled \<and> status b \<noteq> BCompleted \<longrightarrow>
            (\<exists>b1. fst (cancelBooking now user reason d bid) = saveBooking d b1
                  \<and> status b1 = BCancelled \<and> booking_id b1 = booking_id b)
            \<and> (paymentStatus b = Paid \<or> paymentStatus b = PartiallyPaid \<longrightarrow>
                 (\<exists>amount. snd (cancelBooking now user reason d bid)
                     = Inr \<lparr>resp_refundAmount = amount, resp_refundPercentage = 1 / 2\<rparr>))
            \<and> (paymentStatus b \<noteq> Paid \<and> paymentStatus b \<noteq> PartiallyPaid \<longrightarrow>
                 snd (cancelBooking now user reason d bid)
                     = Inr \<lparr>resp_refundAmount = 0, resp_refundPercentage = 0\<rparr>))"
proof -
  have late': "of_int (departureDate b - now) / (1000 * 60 * 60) < (24 :: rat)"
    using late hours by simp
  have refused: "\<not> actor_isAdmin user \<Longrightarrow>
      fst (cancelBooking now user reason d bid) = d
      \<and> isl (snd (cancelBooking now user reason d bid))"
    using cancelBooking_refused [OF found late', of user reason] by simp
  have tooLate: "\<not> actor_isAdmin user \<Longrightarrow> status b \<noteq> BCancelled \<Longrightarrow> status b \<noteq> BCompleted \<Longrightarrow>
      snd (cancelBooking now user reason d bid) = Inl (TooLateToCancel h)"
    using cancelBooking_refused [OF found late', of user reason] hours by simp
  have admin: "actor_isAdmin user \<Longrightarrow> status b \<noteq> BCancelled \<Longrightarrow> status b \<noteq> BCompleted \<Longrightarrow>
      (\<exists>b1. fst (cancelBooking now user reason d bid) = saveBooking d b1
            \<and> status b1 = BCancelled \<and> booking_id b1 = booking_id b)
      \<and> (paymentStatus b = Paid \<or> paymentStatus b = PartiallyPaid \<longrightarrow>
           (\<exists>amount. snd (cancelBooking now user reason d bid)
               = Inr \<lparr>resp_refundAmount = amount, resp_refundPercentage = 1 / 2\<rparr>))
      \<and> (paymentStatus b \<noteq> Paid \<and> paymentStatus b \<noteq> PartiallyPaid \<longrightarrow>
           snd (cancelBooking now user reason d bid)
               = Inr \<lparr>resp_refundAmount = 0, resp_refundPercentage = 0\<rparr>)"
  proof -
    assume a: "actor_isAdmin user" "status b \<noteq> BCancelled" "status b \<noteq> BCompleted"
    note eq = cancelBooking_admin [OF found late' a, of reason]
    have ex: "\<exists>b1. fst (cancelBooking now user reason d bid) = saveBooking d b1
            \<and> status b1 = BCancelled \<and> booking_id b1 = booking_id b"
      unfolding eq Let_def fst_conv
      by (rule exI, rule conjI, rule refl) simp
    have resp: "(paymentStatus b = Paid \<or> paymentStatus b = PartiallyPaid \<longrightarrow>
           (\<exists>amount. snd (cancelBooking now user reason d bid)
               = Inr \<lparr>resp_refundAmount = amount, resp_refundPercentage = 1 / 2\<rparr>))
      \<and> (paymentStatus b \<noteq> Paid \<and> paymentStatus b \<noteq> PartiallyPaid \<longrightarrow>
           snd (cancelBooking now user reason d bid)
               = Inr \<lparr>resp_refundAmount = 0, resp_refundPercentage = 0\<rparr>)"
      unfolding eq Let_def snd_conv by auto
    show ?thesis using ex resp by (rule conjI)
  qed
  show ?thesis
    using refused tooLate admin by blast
qed

theorem late_cancellation_guard_witness:
  "find (\<lambda>b. booking_id b = 2) (db_bookings sampleDb) = Some paidBooking
   \<and> (18 :: rat) = of_int (departureDate paidBooking - 1736445600000) / (1000 * 60 * 60)
   \<and> (18 :: rat) < 24
   \<and> cancelBooking 1736445600000 sampleUser None sampleDb 2 = (sampleDb, Inl (TooLateToCancel 18))
   \<and> snd (cancelBooking 1736445600000 sampleAdmin None sampleDb 2)
       = Inr \<lparr>resp_refundAmount = 50, resp_refundPercentage = 1 / 2\<rparr>"
proof -
  have found: "find (\<lambda>b. booking_id b = 2) (db_bookings sampleDb) = Some paidBooking"
    by (simp add: sampleDb_def paidBooking_def sampleBooking_def)
  have hours: "(18 :: rat) = of_int (departureDate paidBooking - 1736445600000) / (1000 * 60 * 60)"
    by (simp add: paidBooking_def sampleBooking_def)
  have late: "(18 :: rat) < 24" by simp
  have st: "status paidBooking \<noteq> BCancelled" "status paidBooking \<noteq> BCompleted"
    "paymentStatus paidBooking = Paid"
    by (simp_all add: paidBooking_def)
  have amount: "snd (cancelBooking 1736445600000 sampleAdmin None sampleDb 2)
       = Inr \<lparr>resp_refundAmount = 50, resp_refundPercentage = 1 / 2\<rparr>"
    by (simp add: cancelBooking_def Let_def paidBooking_def sampleBooking_def sampleDb_def
        sampleAdmin_def controllerRefund_def controllerTier_def round2_def)
  from late_cancellation_guard [OF found hours late, of sampleUser None]
  have "cancelBooking 1736445600000 sampleUser None sampleDb 2 = (sampleDb, Inl (TooLateToCancel 18))"
    using st by (simp add: sampleUser_def prod_eq_iff)
  then show ?thesis
    using found hours amount by simp
qed

text \<open>
  The claim as stated fails for an unpaid booking: an admin cancelling it 18 hours before
  departure gets 0%, not 50%.
\<close>

theorem late_cancellation_guard_counterexample:
  "(18 :: rat) = of_int (departureDate sampleBooking - 1736445600000) / (1000 * 60 * 60)
   \<and> actor_isAdmin sampleAdmin
   \<and> paymentStatus sampleBooking = PayPending
   \<and> snd (cancelBooking 1736445600000 sampleAdmin None sampleDb 1)
       = Inr \<lparr>resp_refundAmount = 0, resp_refundPercentage = 0\<rparr>"
  by (simp add: cancelBooking_def Let_def sampleBooking_def sampleDb_def
      sampleAdmin_def controllerRefund_def)

section \<open>C9: terminal states of a booking\<close>

text \<open>
  The controller refuses every change of a Cancelled or Completed booking to another
  status and leaves the data store as it was.
\<close>

lemma updateBookingStatus_terminal:
  assumes found: "find (\<lambda>b. booking_id b = bid) (db_bookings d) = Some b"
    and terminal: "status b = BCancelled \<or> status b = BCompleted"
    and change: "newStatus \<noteq> status b"
  shows "updateBookingStatus now user newStatus notesOpt d bid =
     (d, Inl (if newStatus = BRefunded then StatusNotAllowed
              else if status b = BCancelled then CancelledIsFinal else CompletedIsFinal))"
  using found terminal change
  by (cases newStatus) (auto simp: updateBookingStatus_def controllerValidStatuses_def)

text \<open>
  C9. A transition out of Cancelled or Completed must fail and leave the status
  unchanged. \<open>updateStatus\<close> of the Booking model only checks that the new status is
  one of the six known ones: it moves a Cancelled booking to Pending and a Completed one
  to Confirmed, and reports success.
\<close>

theorem model_updateStatus_leaves_terminal_state:
  "status cancelledBooking = BCancelled
   \<and> updateStatus 1736000000000 ''REF-5'' cancelledBooking BPending []
       = (cancelledBooking\<lparr>status := BPending\<rparr>,
          Inr \<lparr>sc_oldStatus = BCancelled, sc_newStatus = BPending\<rparr>)
   \<and> status completedBooking = BCompleted
   \<and> updateStatus 1736000000000 ''REF-6'' completedBooking BConfirmed []
       = (completedBooking\<lparr>status := BConfirmed\<rparr>,
          Inr \<lparr>sc_oldStatus = BCompleted, sc_newStatus = BConfirmed\<rparr>)"
  by (simp add: updateStatus_def validStatuses_def cancelledBooking_def completedBooking_def
      sampleBooking_def Let_def)

section \<open>C4: cost of a Route-Based hiring\<close>



text \<open>
  \<open>this.baseRate || route.baseFare\<close> also falls back on a base rate of 0, which the
  request validation (\<open>baseRate > 0\<close>) keeps out of stored hirings.
\<close>

lemma routeBased_zero_rate_falls_back:
  "js_or (Some 0) fare = fare \<and> js_or None fare = fare \<and> (x \<noteq> 0 \<longrightarrow> js_or (Some x) fare = x)"
  by (simp add: js_or_def)



section \<open>C7: round trip, promo discount and rounding\<close>



lemma peak_weekend_bookingType [simp]:
  "isPeakTimeOf tz (b\<lparr>bookingType := t\<rparr>) = isPeakTimeOf tz b"
  "isWeekendOf tz (b\<lparr>bookingType := t\<rparr>) = isWeekendOf tz b"
  by (simp_all add: isPeakTimeOf_def isWeekendOf_def)




section \<open>C5: conflicting time windows\<close>





text \<open>
  Where the existing hiring strictly encloses the requested window, neither of its
  endpoints lies in the requested window and the bus is reported available.
\<close>

lemma checkBusAvailability_misses_enclosing_hiring:
  "activeHiring existingHire
   \<and> h_bus existingHire = h_bus enclosedRequest
   \<and> startDate existingHire < startDate enclosedRequest
   \<and> endDate enclosedRequest < endDate existingHire
   \<and> checkBusAvailability hireDb enclosedRequest
       = Available \<lparr>bus_id = 1, busNumber = ''AKTC-123'', capacity = 25, busStatus = Active\<rparr>"
  by (simp add: checkBusAvailability_def hireDb_def sampleDb_def enclosedRequest_def
      existingHire_def sampleHiring_def hiringInWindow_def activeHiring_def Let_def)


section \<open>C6: seat conflicts at booking creation\<close>

lemma hasDuplicates_distinct: "hasDuplicates xs = (\<not> distinct xs)"
  by (metis hasDuplicates_def length_remdups_eq remdups_id_iff_distinct)

lemma seatChecks_passed:
  assumes "seatChecks d busData rq = None"
  shows "distinct (case rq_outbound rq of None \<Rightarrow> [] | Some xs \<Rightarrow> xs)"
    and "distinct (map seatNumber (rq_passengers rq))"
    and "\<not> seatsMismatch (case rq_outbound rq of None \<Rightarrow> [] | Some xs \<Rightarrow> xs) (rq_passengers rq)"
    and "(case rq_outbound rq of None \<Rightarrow> [] | Some xs \<Rightarrow> xs) \<noteq> [] \<Longrightarrow>
           existingSeatConflicts d rq (case rq_outbound rq of None \<Rightarrow> [] | Some xs \<Rightarrow> xs) = []"
  using assms
  by (simp_all add: seatChecks_def Let_def hasDuplicates_distinct split: if_splits)

lemma matched_seats_equal:
  assumes d1: "distinct outboundSeats" and d2: "distinct (map seatNumber ps)"
    and m: "\<not> seatsMismatch outboundSeats ps"
  shows "set outboundSeats = set (map seatNumber ps)"
proof -
  from m have len: "length outboundSeats = length ps"
    and sub: "set outboundSeats \<subseteq> set (map seatNumber ps)"
    by (auto simp: seatsMismatch_def list_all_iff split: if_splits)
  have "card (set outboundSeats) = length outboundSeats"
    using d1 by (rule distinct_card)
  moreover have "card (set (map seatNumber ps)) = length ps"
    using distinct_card [OF d2] by simp
  ultimately have "card (set outboundSeats) = card (set (map seatNumber ps))"
    using len by simp
  with sub show ?thesis
    by (intro card_subset_eq) simp_all
qed

lemma seatChecks_outbound_free:
  assumes ok: "seatChecks d busData rq = None"
    and x: "x \<in> set (db_bookings d)" "bus x = rq_bus rq"
      "departureDate x = rq_departureDate rq" "activeBooking x"
  shows "set (map seatNumber (passengers x)) \<inter> set (map seatNumber (rq_passengers rq)) = {}"
proof (cases "rq_passengers rq = []")
  case True
  then show ?thesis by simp
next
  case False
  define out where "out = (case rq_outbound rq of None \<Rightarrow> [] | Some xs \<Rightarrow> xs)"
  note p = seatChecks_passed [OF ok, folded out_def]
  have eq: "set out = set (map seatNumber (rq_passengers rq))"
    using p(1) p(2) p(3) by (rule matched_seats_equal)
  have "set (map seatNumber (rq_passengers rq)) \<noteq> {}"
    using False by simp
  with eq have "out \<noteq> []" by auto
  then have "existingSeatConflicts d rq out = []" by (rule p(4))
  then have "\<not> holdsSeatIn out x"
    using x by (auto simp: existingSeatConflicts_def filter_empty_conv sameDates_def)
  then have "set (map seatNumber (passengers x)) \<inter> set out = {}"
    by (auto simp: holdsSeatIn_def list_ex_iff)
  then show ?thesis
    unfolding eq .
qed

text \<open>
  The outbound half of the seat rule holds: a booking that \<open>createBooking\<close> accepts shares
  no passenger seat with a Pending or Confirmed booking stored for the same bus and
  departure instant.
\<close>

lemma createBooking_outbound_seats_free:
  assumes made: "createBooking newId newNumber d rq = (d', Inr b)"
    and x: "x \<in> set (db_bookings d)" "bus x = bus b" "departureDate x = departureDate b"
      "activeBooking x"
  shows "set (map seatNumber (passengers x)) \<inter> set (map seatNumber (passengers b)) = {}"
proof -
  from made obtain routeData busData where ok: "seatChecks d busData rq = None"
    and b: "b = newBooking newId newNumber routeData rq"
    by (auto simp: createBooking_def Let_def split: option.splits if_splits)
  have f: "bus b = rq_bus rq" "departureDate b = rq_departureDate rq"
    "passengers b = rq_passengers rq"
    by (simp_all add: b newBooking_def)
  show ?thesis
    using seatChecks_outbound_free [OF ok x(1)] x(2,3,4) unfolding f by simp
qed

text \<open>
  So do the capacity and duplicate rules: an accepted booking has distinct passenger
  seats, equal as a set to its selected outbound seats, and fits the capacity of the bus
  together with the seats already booked for its departure instant.
\<close>

lemma createBooking_capacity_and_duplicates:
  assumes made: "createBooking newId newNumber d rq = (d', Inr b)"
  shows "distinct (map seatNumber (passengers b))"
    and "set (selectedOutbound b) = set (map seatNumber (passengers b))"
    and "\<exists>busData. find (\<lambda>x. bus_id x = bus b) (db_buses d) = Some busData
           \<and> length (bookedOutbound rq (existingBookings d rq)) + length (passengers b)
               \<le> capacity busData"
proof -
  from made obtain routeData busData where ok: "seatChecks d busData rq = None"
    and bus: "find (\<lambda>x. bus_id x = rq_bus rq) (db_buses d) = Some busData"
    and b: "b = newBooking newId newNumber routeData rq"
    by (auto simp: createBooking_def Let_def split: option.splits if_splits)
  have f: "bus b = rq_bus rq" "passengers b = rq_passengers rq"
    "selectedOutbound b = (case rq_outbound rq of None \<Rightarrow> [] | Some xs \<Rightarrow> xs)"
    by (simp_all add: b newBooking_def)
  note p = seatChecks_passed [OF ok]
  show "distinct (map seatNumber (passengers b))"
    unfolding f by (rule p(2))
  show "set (selectedOutbound b) = set (map seatNumber (passengers b))"
    unfolding f using p(1) p(2) p(3) by (rule matched_seats_equal)
  have "length (bookedOutbound rq (existingBookings d rq)) + length (rq_passengers rq)
          \<le> capacity busData"
    using ok by (simp add: seatChecks_def Let_def split: if_splits)
  with bus show "\<exists>busData. find (\<lambda>x. bus_id x = bus b) (db_buses d) = Some busData
           \<and> length (bookedOutbound rq (existingBookings d rq)) + length (passengers b)
               \<le> capacity busData"
    unfolding f by blast
qed

text \<open>
  C6. A request must be rejected when a requested return seat is already held, for the
  same bus and return instant, by another Pending or Confirmed booking, so that no two
  such bookings share a seat. The return-seat query of \<open>createBooking\<close> compares the
  requested return seats with the passenger seats of the stored bookings, not with their
  return seats: two round trips returning on the same bus at the same instant are both
  accepted with return seat 2.
\<close>

theorem createBooking_shares_return_seat:
  "(let (d1, r1) = createBooking 101 ''BKG-A'' emptyDb firstRoundTrip;
        (d2, r2) = createBooking 102 ''BKG-B'' d1 secondRoundTrip
    in isl r1 = False \<and> isl r2 = False
       \<and> map (\<lambda>b. (bookingNumber b, status b, bus b, returnDate b, selectedReturn b))
             (db_bookings d2)
          = [(''BKG-A'', BPending, 1, Some 1736683200000, [''2'']),
             (''BKG-B'', BPending, 1, Some 1736683200000, [''2''])])"
  by (simp add: createBooking_def seatChecks_def emptyDb_def sampleDb_def firstRoundTrip_def
      secondRoundTrip_def hiringConflicts_def existingBookings_def sameDates_def
      activeBooking_def bookedOutbound_def bookedReturn_def hasDuplicates_def
      seatsMismatch_def existingSeatConflicts_def returnSeatConflicts_def holdsSeatIn_def
      newBooking_def requestFare_def round2_def js_or_def Let_def)

section \<open>What a seat rejection lists\<close>

text \<open>
  A seat-conflict rejection lists the requested outbound seats that stored bookings of
  the conflict query hold, and the numbers of those bookings.
\<close>

lemma set_seatsHeld:
  "set (seatsHeld seats bs) =
     {s. s \<in> set seats \<and> (\<exists>b \<in> set bs. s \<in> set (map seatNumber (passengers b)))}"
  by (auto simp: seatsHeld_def)

lemma seatChecks_rejection_lists:
  assumes rejected: "seatChecks d busData rq = Some (SeatsAlreadyBooked seats numbers)"
    and out: "out = (case rq_outbound rq of None \<Rightarrow> [] | Some xs \<Rightarrow> xs)"
  shows "numbers = map bookingNumber (existingSeatConflicts d rq out)"
    and "numbers \<noteq> []"
    and "set seats = {s. s \<in> set out
            \<and> (\<exists>b \<in> set (existingSeatConflicts d rq out).
                   s \<in> set (map seatNumber (passengers b)))}"
proof -
  have shape: "seats = seatsHeld out (existingSeatConflicts d rq out)
      \<and> numbers = map bookingNumber (existingSeatConflicts d rq out)
      \<and> existingSeatConflicts d rq out \<noteq> []"
    using rejected unfolding out
    by (simp add: seatChecks_def Let_def split: if_splits)
  show "numbers = map bookingNumber (existingSeatConflicts d rq out)"
    using shape by simp
  show "numbers \<noteq> []"
    using shape by simp
  show "set seats = {s. s \<in> set out
            \<and> (\<exists>b \<in> set (existingSeatConflicts d rq out).
                   s \<in> set (map seatNumber (passengers b)))}"
    using shape by (simp only: set_seatsHeld)
qed

lemma checkSeatAvailability_conflicts:
  "set (conflictingSeats (checkSeatAvailability tz bs this)) =
     {s. s \<in> set (map seatNumber (passengers this))
         \<and> (\<exists>b \<in> set (sameDayBookings tz bs this (departureDate this)).
               s \<in> set (map seatNumber (passengers b)))}"
  by (auto simp: checkSeatAvailability_def Let_def)

end
